theory Spec2Isabelle
  imports Complex_Main "HOL-Library.AList"
begin

section \<open>Data model\<close>

text \<open>
  The integration keeps its persons and its notification requests in Python
  dictionaries. They are modelled as records whose optional keys are options:
  \<open>None\<close> is the key that \<open>dict.get\<close> does not find.

  A person (\<open>self.persons\<close>): the keys \<open>name\<close>, \<open>id\<close> (here \<open>home_id\<close>, since
  \<open>id\<close> is the identity function of HOL), \<open>proximity_id\<close> and
  \<open>notification_service\<close>.
\<close>

record person =
  name :: string
  home_id :: string
  proximity_id :: string
  notification_service :: "string option"

text \<open>An entry of the request's \<open>callback\<close> list, and one of its \<open>until\<close> list.\<close>

record callback_item =
  event :: "string option"
  callback_title :: "string option"

record until_item =
  entity_id :: "string option"
  new_state :: "string option"

text \<open>The data of a \<open>NOTIFIER\<close> event.\<close>

record request =
  action :: "string option"
  tag :: "string option"
  title :: "string option"
  message :: "string option"
  persistent :: "bool option"
  callback :: "callback_item list option"
  image_url :: "string option"
  click_url :: "string option"
  color :: "string option"
  until :: "until_item list option"

text \<open>
  What \<open>_build_payload\<close> returns: a dictionary with the keys \<open>actions\<close>, \<open>tag\<close>,
  \<open>image\<close>, \<open>clickAction\<close> and \<open>color\<close>, each present or not. An entry of \<open>actions\<close>
  always has the keys \<open>action\<close> and \<open>title\<close>; there \<open>None\<close> is the value that
  \<open>cb.get\<close> returns for a key the callback entry does not have.
\<close>

record action_item =
  action_name :: "string option"
  action_title :: "string option"

record payload =
  actions :: "action_item list option"
  payload_tag :: "string option"
  image :: "string option"
  clickAction :: "string option"
  payload_color :: "string option"

text \<open>
  The data of a service call: the keys \<open>title\<close> and \<open>message\<close>, each present or
  not, and the keys of a payload.
\<close>

record service_data =
  data_title :: "string option"
  data_message :: "string option"
  data_payload :: payload

text \<open>
  The platform (\<open>self.hass\<close>) as the manager sees it. The manager reads \<open>states\<close>;
  \<open>calls\<close> lists the service calls it has made, \<open>subscriptions\<close> the subscriptions it
  has taken (the handle of a subscription is its position in the list), \<open>removed\<close>
  the handles whose release callable it has invoked, and \<open>tasks\<close> the coroutines
  \<open>_send_to_present(data)\<close> handed to \<open>asyncio.create_task\<close> that have not run yet.
  \<open>service_raises\<close> and \<open>remove_raises\<close> say which service calls and which release
  callables raise an \<open>Exception\<close>. A handler runs to its end before the next one
  starts: what other handlers do while one of them awaits a call is not
  represented.
\<close>

datatype callback_target =
  HandleNotifierEvent | HandleDiscardEvent | HandleMobileAction
  | HomeStateChanged | UntilCallback string

datatype subscription =
  BusListener string callback_target
  | StateTracker "string option" callback_target "string option"

datatype outcome = Returned | Raised

record hass =
  states :: "string \<Rightarrow> string option"
  service_raises :: "string \<Rightarrow> string \<Rightarrow> bool"
  remove_raises :: "nat \<Rightarrow> bool"
  calls :: "(string \<times> string \<times> service_data) list"
  subscriptions :: "subscription list"
  removed :: "nat list"
  tasks :: "request list"

text \<open>
  The fields of \<open>NotifierManager\<close> (\<open>self.hass\<close> is passed beside it, and
  \<open>entry_id\<close> is only logged). \<open>watchers\<close> is a dictionary from tags to release
  callables, kept as an association list in insertion order: \<open>AList.update\<close>
  is the assignment \<open>self.watchers[tag] = remove\<close>, \<open>map_of\<close> the lookup and
  \<open>AList.delete\<close> the removal of a key. A release callable is the handle of its
  subscription.
\<close>

record manager =
  home_sensor :: string
  threshold :: int
  persons :: "person list"
  staged :: "request list"
  watchers :: "(string \<times> nat) list"
  listeners :: "nat list"

section \<open>Dispatch\<close>

text \<open>
  \<open>hass.services.async_call\<close>: the call is recorded, and it returns or raises as
  the platform decides.
\<close>

definition async_call :: "hass \<Rightarrow> string \<Rightarrow> string \<Rightarrow> service_data \<Rightarrow> outcome \<times> hass" where
  "async_call h domain service data =
     (if service_raises h domain service then Raised else Returned,
      h\<lparr>calls := calls h @ [(domain, service, data)]\<rparr>)"

text \<open>\<open>_call_notify_service\<close>: the \<open>except Exception\<close> branch logs and returns.\<close>

definition call_notify_service :: "hass \<Rightarrow> string \<Rightarrow> service_data \<Rightarrow> string \<Rightarrow> hass" where
  "call_notify_service h service data domain =
     (case async_call h domain service data of
        (Returned, h') \<Rightarrow> h'
      | (Raised, h') \<Rightarrow> h')"

text \<open>
  \<open>domain, service = svc.split("/", 1)\<close> when \<open>"/" in svc\<close>, and
  \<open>"notify", svc\<close> otherwise.
\<close>

definition split_service :: "string \<Rightarrow> string \<times> string" where
  "split_service svc =
     (if CHR ''/'' \<in> set svc
      then (takeWhile (\<lambda>c. c \<noteq> CHR ''/'') svc, tl (dropWhile (\<lambda>c. c \<noteq> CHR ''/'') svc))
      else (''notify'', svc))"

definition empty_payload :: payload where
  "empty_payload =
     \<lparr>actions = None, payload_tag = None, image = None, clickAction = None,
      payload_color = None\<rparr>"

text \<open>\<open>_build_payload\<close>: one assignment per key that is in \<open>data\<close>.\<close>

definition build_payload :: "request \<Rightarrow> payload" where
  "build_payload data =
     (let p0 = empty_payload;
          p1 = (case callback data of
                  Some cbs \<Rightarrow>
                    p0\<lparr>actions :=
                      Some (map (\<lambda>cb. \<lparr>action_name = event cb, action_title = callback_title cb\<rparr>) cbs)\<rparr>
                | None \<Rightarrow> p0);
          p2 = (case tag data of Some t \<Rightarrow> p1\<lparr>payload_tag := Some t\<rparr> | None \<Rightarrow> p1);
          p3 = (case image_url data of Some u \<Rightarrow> p2\<lparr>image := Some u\<rparr> | None \<Rightarrow> p2);
          p4 = (case click_url data of Some u \<Rightarrow> p3\<lparr>clickAction := Some u\<rparr> | None \<Rightarrow> p3);
          p5 = (case color data of Some c \<Rightarrow> p4\<lparr>payload_color := Some c\<rparr> | None \<Rightarrow> p4)
      in p5)"

text \<open>\<open>data.get(key, "")\<close> on an optional string.\<close>

definition get_or_empty :: "string option \<Rightarrow> string" where
  "get_or_empty v = (case v of Some s \<Rightarrow> s | None \<Rightarrow> '''')"

text \<open>\<open>_send_to_person\<close>: nothing happens for a person with no (or an empty) channel.\<close>

definition send_to_person :: "hass \<Rightarrow> request \<Rightarrow> person \<Rightarrow> hass" where
  "send_to_person h data p =
     (case notification_service p of
        None \<Rightarrow> h
      | Some svc \<Rightarrow>
          if svc = [] then h
          else
            (let (domain, service) = split_service svc;
                 pl = build_payload data
             in call_notify_service h service
                  \<lparr>data_title = Some (get_or_empty (title data)),
                   data_message = Some (get_or_empty (message data)),
                   data_payload = pl\<rparr>
                  domain))"

definition send_to_all :: "manager \<Rightarrow> hass \<Rightarrow> request \<Rightarrow> hass" where
  "send_to_all m h data = fold (\<lambda>p h'. send_to_person h' data p) (persons m) h"

section \<open>Recipient selection\<close>

text \<open>
  The numbers of the selection are Python numbers: the integer threshold and
  the integer sentinel \<open>9999\<close>, and the floats that \<open>float\<close> returns, which are
  finite, infinite or not a number. \<open>Fin r\<close> is the finite float of value \<open>r\<close>.
\<close>

datatype pyfloat = Fin real | PosInf | NegInf | NaN

datatype pynum = PyInt int | PyFloat pyfloat

datatype pyerr = OverflowError

text \<open>
  The comparisons \<open><=\<close> and \<open><\<close>. Every comparison with a not-a-number is false.
  Python compares an \<open>int\<close> with a \<open>float\<close> by their exact values, so a number is
  compared through its value (\<open>num_value\<close>); \<open>a > b\<close> is \<open>b < a\<close>.
\<close>

fun float_le :: "pyfloat \<Rightarrow> pyfloat \<Rightarrow> bool" where
  "float_le NaN y = False"
| "float_le x NaN = False"
| "float_le (Fin a) (Fin b) = (a \<le> b)"
| "float_le NegInf y = True"
| "float_le x PosInf = True"
| "float_le x y = False"

fun float_lt :: "pyfloat \<Rightarrow> pyfloat \<Rightarrow> bool" where
  "float_lt NaN y = False"
| "float_lt x NaN = False"
| "float_lt (Fin a) (Fin b) = (a < b)"
| "float_lt x NegInf = False"
| "float_lt NegInf y = True"
| "float_lt PosInf y = False"
| "float_lt x PosInf = True"

fun num_value :: "pynum \<Rightarrow> pyfloat" where
  "num_value (PyInt i) = Fin (real_of_int i)"
| "num_value (PyFloat f) = f"

definition num_le :: "pynum \<Rightarrow> pynum \<Rightarrow> bool" where
  "num_le a b = float_le (num_value a) (num_value b)"

definition num_lt :: "pynum \<Rightarrow> pynum \<Rightarrow> bool" where
  "num_lt a b = float_lt (num_value a) (num_value b)"

text \<open>
  The builtin \<open>min\<close> on a list with head \<open>x\<close>: it keeps the first item and replaces
  it by a later one that compares less.
\<close>

fun py_min :: "pynum \<Rightarrow> pynum list \<Rightarrow> pynum" where
  "py_min x [] = x"
| "py_min x (y # ys) = py_min (if num_lt y x then y else x) ys"

text \<open>
  The sum \<open>minp + self.threshold\<close>. On two integers it is exact. On a float and an
  integer Python converts the integer and adds with rounding, and raises
  \<open>OverflowError\<close> for an integer too large to convert; that addition is a
  parameter, \<open>float_add\<close>, which is \<open>None\<close> where it raises.
\<close>

definition num_add :: "(pyfloat \<Rightarrow> int \<Rightarrow> pyfloat option) \<Rightarrow> pynum \<Rightarrow> int \<Rightarrow> pyerr + pynum" where
  "num_add float_add a t =
     (case a of
        PyInt i \<Rightarrow> Inr (PyInt (i + t))
      | PyFloat f \<Rightarrow>
          (case float_add f t of
             None \<Rightarrow> Inl OverflowError
           | Some s \<Rightarrow> Inr (PyFloat s)))"

text \<open>
  Two properties of Python's addition of a float and an integer (the conversion
  and the addition round to nearest, which keeps the order): a sum with an
  integer that is not negative is not below the float, and the sum does not
  decrease when the integer grows. They are stated for the sums that do not
  raise; the second is stated through what lies below the sums, which covers
  the not-a-number.
\<close>

definition add_inflationary :: "(pyfloat \<Rightarrow> int \<Rightarrow> pyfloat option) \<Rightarrow> bool" where
  "add_inflationary float_add =
     (\<forall>f t s. f \<noteq> NaN \<longrightarrow> 0 \<le> t \<longrightarrow> float_add f t = Some s \<longrightarrow> float_le f s)"

definition add_monotone :: "(pyfloat \<Rightarrow> int \<Rightarrow> pyfloat option) \<Rightarrow> bool" where
  "add_monotone float_add =
     (\<forall>f t1 t2 s1 s2 x.
        t1 \<le> t2 \<longrightarrow> float_add f t1 = Some s1 \<longrightarrow> float_add f t2 = Some s2 \<longrightarrow>
        float_le x s1 \<longrightarrow> float_le x s2)"

text \<open>
  \<open>_safe_float\<close>. Python's \<open>float\<close> on a state string is a parameter, \<open>float_of\<close>:
  \<open>None\<close> where it raises, and the float it returns otherwise (\<open>float("nan")\<close> and
  \<open>float("inf")\<close> return). The \<open>except\<close> branch returns the integer \<open>9999\<close>.
\<close>

definition safe_float :: "(string \<Rightarrow> pyfloat option) \<Rightarrow> string \<Rightarrow> pynum" where
  "safe_float float_of v = (case float_of v of Some x \<Rightarrow> PyFloat x | None \<Rightarrow> PyInt 9999)"

definition send_to_present :: "(string \<Rightarrow> pyfloat option) \<Rightarrow> manager \<Rightarrow> hass \<Rightarrow> request \<Rightarrow> hass" where
  "send_to_present float_of m h data =
     fold (\<lambda>p h'.
        let state = states h' (home_id p);
            home = (case state of Some s \<Rightarrow> s = ''home'' | None \<Rightarrow> False);
            prox_state = states h' (proximity_id p);
            prox = (case prox_state of Some s \<Rightarrow> safe_float float_of s | None \<Rightarrow> PyInt 9999)
        in if home \<or> num_le prox (PyInt (threshold m)) then send_to_person h' data p else h')
       (persons m) h"

definition send_to_absent :: "(string \<Rightarrow> pyfloat option) \<Rightarrow> manager \<Rightarrow> hass \<Rightarrow> request \<Rightarrow> hass" where
  "send_to_absent float_of m h data =
     fold (\<lambda>p h'.
        let state = states h' (home_id p);
            home = (case state of Some s \<Rightarrow> s = ''home'' | None \<Rightarrow> False);
            prox_state = states h' (proximity_id p);
            prox = (case prox_state of Some s \<Rightarrow> safe_float float_of s | None \<Rightarrow> PyInt 9999)
        in if \<not> home \<or> num_lt (PyInt (threshold m)) prox then send_to_person h' data p else h')
       (persons m) h"

text \<open>
  \<open>_send_to_nearest\<close>. The list of proximities is empty exactly when there
  is no person, and then the function returns at once. Otherwise the sum
  \<open>minp + self.threshold\<close>, which the loop evaluates for every person and whose
  operands do not change, is evaluated for the first person before anything is
  sent: when it raises, the function raises and nothing has been sent.
\<close>

definition send_to_nearest ::
  "(string \<Rightarrow> pyfloat option) \<Rightarrow> (pyfloat \<Rightarrow> int \<Rightarrow> pyfloat option) \<Rightarrow> manager \<Rightarrow> hass \<Rightarrow> request
     \<Rightarrow> pyerr + hass" where
  "send_to_nearest float_of float_add m h data =
     (let proximities =
            map (\<lambda>p. case states h (proximity_id p) of
                        Some s \<Rightarrow> safe_float float_of s | None \<Rightarrow> PyInt 9999) (persons m)
      in case proximities of
           [] \<Rightarrow> Inr h
         | x # xs \<Rightarrow>
             (let minp = py_min x xs
              in case num_add float_add minp (threshold m) of
                   Inl e \<Rightarrow> Inl e
                 | Inr bound \<Rightarrow>
                     Inr (fold (\<lambda>p h'.
                            let prox_state = states h' (proximity_id p);
                                prox = (case prox_state of
                                          Some s \<Rightarrow> safe_float float_of s | None \<Rightarrow> PyInt 9999)
                            in if num_le prox bound then send_to_person h' data p else h')
                           (persons m) h)))"

text \<open>\<open>_send_when_present\<close>: dispatch now, or append to \<open>self.staged\<close>.\<close>

definition send_when_present ::
  "(string \<Rightarrow> pyfloat option) \<Rightarrow> manager \<Rightarrow> hass \<Rightarrow> request \<Rightarrow> manager \<times> hass" where
  "send_when_present float_of m h data =
     (let home_state = states h (home_sensor m)
      in if (case home_state of Some s \<Rightarrow> s = ''on'' | None \<Rightarrow> False)
         then (m, send_to_present float_of m h data)
         else (m\<lparr>staged := staged m @ [data]\<rparr>, h))"

text \<open>
  The readings of a person and the tests that the three loops apply, as
  predicates on persons; \<open>selected_present\<close>, \<open>selected_absent\<close> and
  \<open>selected_nearest\<close> are the configured persons that pass, in the configured
  order, and \<open>send_each\<close> sends to a list of recipients in order.
\<close>

definition is_home :: "hass \<Rightarrow> person \<Rightarrow> bool" where
  "is_home h p = (case states h (home_id p) of Some s \<Rightarrow> s = ''home'' | None \<Rightarrow> False)"

definition proximity :: "(string \<Rightarrow> pyfloat option) \<Rightarrow> hass \<Rightarrow> person \<Rightarrow> pynum" where
  "proximity float_of h p =
     (case states h (proximity_id p) of Some s \<Rightarrow> safe_float float_of s | None \<Rightarrow> PyInt 9999)"

definition present_rule :: "(string \<Rightarrow> pyfloat option) \<Rightarrow> manager \<Rightarrow> hass \<Rightarrow> person \<Rightarrow> bool" where
  "present_rule float_of m h p =
     (is_home h p \<or> num_le (proximity float_of h p) (PyInt (threshold m)))"

definition send_each :: "hass \<Rightarrow> request \<Rightarrow> person list \<Rightarrow> hass" where
  "send_each h data ps = fold (\<lambda>p h'. send_to_person h' data p) ps h"

definition selected_present :: "(string \<Rightarrow> pyfloat option) \<Rightarrow> manager \<Rightarrow> hass \<Rightarrow> person list" where
  "selected_present float_of m h = filter (present_rule float_of m h) (persons m)"

definition absent_rule :: "(string \<Rightarrow> pyfloat option) \<Rightarrow> manager \<Rightarrow> hass \<Rightarrow> person \<Rightarrow> bool" where
  "absent_rule float_of m h p =
     (\<not> is_home h p \<or> num_lt (PyInt (threshold m)) (proximity float_of h p))"

definition selected_absent :: "(string \<Rightarrow> pyfloat option) \<Rightarrow> manager \<Rightarrow> hass \<Rightarrow> person list" where
  "selected_absent float_of m h = filter (absent_rule float_of m h) (persons m)"

text \<open>
  The minimum that \<open>_send_to_nearest\<close> computes (none without persons), and the
  persons it selects for a given value of \<open>minp + self.threshold\<close>.
\<close>

definition min_proximity :: "(string \<Rightarrow> pyfloat option) \<Rightarrow> manager \<Rightarrow> hass \<Rightarrow> pynum option" where
  "min_proximity float_of m h =
     (case map (proximity float_of h) (persons m) of
        [] \<Rightarrow> None
      | x # xs \<Rightarrow> Some (py_min x xs))"

definition selected_nearest ::
  "(string \<Rightarrow> pyfloat option) \<Rightarrow> manager \<Rightarrow> hass \<Rightarrow> pynum \<Rightarrow> person list" where
  "selected_nearest float_of m h bound =
     filter (\<lambda>p. num_le (proximity float_of h p) bound) (persons m)"

section \<open>The manager\<close>

text \<open>\<open>NotifierManager.__init__\<close>.\<close>

definition manager_init :: "string \<Rightarrow> int \<Rightarrow> person list \<Rightarrow> manager" where
  "manager_init sensor thr ps =
     \<lparr>home_sensor = sensor, threshold = thr, persons = ps, staged = [], watchers = [],
      listeners = []\<rparr>"

text \<open>
  The platform's subscription calls return the release callable of the new
  subscription; invoking a release callable records it, and returns or raises
  as the platform decides. A subscription is live while its release callable
  has not been invoked.
\<close>

definition async_listen :: "hass \<Rightarrow> string \<Rightarrow> callback_target \<Rightarrow> nat \<times> hass" where
  "async_listen h event_type target =
     (length (subscriptions h),
      h\<lparr>subscriptions := subscriptions h @ [BusListener event_type target]\<rparr>)"

definition async_track_state_change ::
  "hass \<Rightarrow> string option \<Rightarrow> callback_target \<Rightarrow> string option \<Rightarrow> nat \<times> hass" where
  "async_track_state_change h entity target to_state =
     (length (subscriptions h),
      h\<lparr>subscriptions := subscriptions h @ [StateTracker entity target to_state]\<rparr>)"

definition invoke_remove :: "hass \<Rightarrow> nat \<Rightarrow> outcome \<times> hass" where
  "invoke_remove h r =
     (if remove_raises h r then Raised else Returned, h\<lparr>removed := removed h @ [r]\<rparr>)"

definition live :: "hass \<Rightarrow> (nat \<times> subscription) list" where
  "live h = filter (\<lambda>(i, s). i \<notin> set (removed h)) (enumerate 0 (subscriptions h))"

text \<open>The statement \<open>try: remove() except Exception: pass\<close>.\<close>

definition try_remove :: "hass \<Rightarrow> nat \<Rightarrow> hass" where
  "try_remove h r =
     (case invoke_remove h r of
        (Returned, h') \<Rightarrow> h'
      | (Raised, h') \<Rightarrow> h')"

text \<open>\<open>async_start\<close>: what the three \<open>async_listen\<close> calls return is dropped.\<close>

definition async_start :: "manager \<Rightarrow> hass \<Rightarrow> manager \<times> hass" where
  "async_start m h =
     (let (_, h1) = async_listen h ''NOTIFIER'' HandleNotifierEvent;
          (_, h2) = async_listen h1 ''NOTIFIER_DISCARD'' HandleDiscardEvent;
          (_, h3) = async_listen h2 ''mobile_app_notification_action'' HandleMobileAction;
          (remove, h4) = async_track_state_change h3 (Some (home_sensor m)) HomeStateChanged None
      in (m\<lparr>listeners := listeners m @ [remove]\<rparr>, h4))"

definition async_stop :: "manager \<Rightarrow> hass \<Rightarrow> manager \<times> hass" where
  "async_stop m h =
     (let h1 = fold (\<lambda>remove h'. try_remove h' remove) (listeners m) h;
          m1 = m\<lparr>listeners := []\<rparr>;
          h2 = fold (\<lambda>(t, remove) h'. try_remove h' remove) (watchers m1) h1;
          m2 = m1\<lparr>watchers := []\<rparr>
      in (m2, h2))"

text \<open>
  \<open>_home_state_changed\<close>: the loop \<open>while self.staged\<close> pops the head of the queue
  and hands \<open>_send_to_present(data)\<close> to \<open>asyncio.create_task\<close>.

  The arguments \<open>old\<close> and \<open>new\<close> are Python objects: a string, a state object (what
  \<open>hass.states.get\<close> returns, whose attribute \<open>state\<close> is the state string) or
  \<open>None\<close>. The comparison \<open>new == "on"\<close> holds for the string \<open>"on"\<close> only: a state
  object is not equal to a string.
\<close>

datatype pyvalue = PyStr string | PyState string | PyNone

fun eq_str :: "pyvalue \<Rightarrow> string \<Rightarrow> bool" where
  "eq_str (PyStr s) t = (s = t)"
| "eq_str (PyState s) t = False"
| "eq_str PyNone t = False"

function drain :: "manager \<Rightarrow> hass \<Rightarrow> manager \<times> hass" where
  "drain m h =
     (case staged m of
        [] \<Rightarrow> (m, h)
      | data # rest \<Rightarrow> drain (m\<lparr>staged := rest\<rparr>) (h\<lparr>tasks := tasks h @ [data]\<rparr>))"
  by pat_completeness auto
termination
  by (relation "measure (\<lambda>(m, h). length (staged m))") auto

declare drain.simps [simp del]

definition home_state_changed ::
  "manager \<Rightarrow> hass \<Rightarrow> string \<Rightarrow> pyvalue \<Rightarrow> pyvalue \<Rightarrow> manager \<times> hass" where
  "home_state_changed m h entity old new =
     (if eq_str new ''on'' \<and> staged m \<noteq> [] then drain m h else (m, h))"

text \<open>
  What the platform does when the state of the home-occupancy sensor changes to
  \<open>s\<close>: it stores the new state, and the tracker that \<open>async_start\<close> registered
  with \<open>async_track_state_change\<close> calls \<open>_home_state_changed\<close> with the entity id and
  the old and the new state object (\<open>None\<close> for a state that is not there).
\<close>

definition state_object :: "string option \<Rightarrow> pyvalue" where
  "state_object v = (case v of None \<Rightarrow> PyNone | Some s \<Rightarrow> PyState s)"

definition sensor_changes :: "manager \<Rightarrow> hass \<Rightarrow> string \<Rightarrow> manager \<times> hass" where
  "sensor_changes m h s =
     (let old = states h (home_sensor m);
          h' = h\<lparr>states := (states h)(home_sensor m \<mapsto> s)\<rparr>
      in home_state_changed m h' (home_sensor m) (state_object old) (state_object (Some s)))"

text \<open>\<open>_clear_notifications\<close>. A release callable is an object, so \<open>if remove\<close> asks
  whether the tag had an entry.\<close>

definition clear_data :: service_data where
  "clear_data =
     \<lparr>data_title = None, data_message = Some ''clear_notification'',
      data_payload = empty_payload\<rparr>"

definition clear_notifications :: "manager \<Rightarrow> hass \<Rightarrow> string \<Rightarrow> manager \<times> hass" where
  "clear_notifications m h t =
     (let h1 = fold (\<lambda>p h'.
                  case notification_service p of
                    None \<Rightarrow> h'
                  | Some svc \<Rightarrow>
                      if svc = [] then h'
                      else (let (domain, service) = split_service svc
                            in call_notify_service h' service clear_data domain))
                (persons m) h;
          remove = map_of (watchers m) t;
          m1 = m\<lparr>watchers := AList.delete t (watchers m)\<rparr>
      in case remove of
           None \<Rightarrow> (m1, h1)
         | Some r \<Rightarrow> (m1, try_remove h1 r))"

definition until_callback :: "manager \<Rightarrow> hass \<Rightarrow> string \<Rightarrow> manager \<times> hass" where
  "until_callback m h t = clear_notifications m h t"

definition handle_discard_event :: "manager \<Rightarrow> hass \<Rightarrow> string option \<Rightarrow> manager \<times> hass" where
  "handle_discard_event m h t =
     (case t of
        None \<Rightarrow> (m, h)
      | Some t' \<Rightarrow> if t' = [] then (m, h) else clear_notifications m h t')"

text \<open>\<open>str(watcher.get("new_state"))\<close>.\<close>

definition py_str :: "string option \<Rightarrow> string" where
  "py_str v = (case v of None \<Rightarrow> ''None'' | Some s \<Rightarrow> s)"

text \<open>The loop over \<open>data["until"]\<close> of \<open>_handle_notifier_event\<close>.\<close>

definition add_watchers :: "manager \<Rightarrow> hass \<Rightarrow> string \<Rightarrow> until_item list \<Rightarrow> manager \<times> hass" where
  "add_watchers m h t ws =
     fold (\<lambda>watcher (m', h').
        let (remove, h'') =
              async_track_state_change h' (entity_id watcher) (UntilCallback t)
                (Some (py_str (new_state watcher)))
        in (m'\<lparr>watchers := AList.update t remove (watchers m')\<rparr>, h''))
       ws (m, h)"

text \<open>
  \<open>_handle_notifier_event\<close>. An exception of the routing (the sum of
  \<open>_send_to_nearest\<close>) ends the handler: the persistent notice and the watchers
  are not reached.
\<close>

definition handle_notifier_event ::
  "(string \<Rightarrow> pyfloat option) \<Rightarrow> (pyfloat \<Rightarrow> int \<Rightarrow> pyfloat option) \<Rightarrow> manager \<Rightarrow> hass \<Rightarrow> request
     \<Rightarrow> pyerr + manager \<times> hass" where
  "handle_notifier_event float_of float_add m h data =
     (case (case action data of
              None \<Rightarrow> Inr (m, h)
            | Some a \<Rightarrow>
                if a = [] then Inr (m, h)
                else if a = ''send_to_all'' then Inr (m, send_to_all m h data)
                else if a = ''send_to_present'' then Inr (m, send_to_present float_of m h data)
                else if a = ''send_to_absent'' then Inr (m, send_to_absent float_of m h data)
                else if a = ''send_to_nearest''
                  then (case send_to_nearest float_of float_add m h data of
                          Inl e \<Rightarrow> Inl e
                        | Inr h' \<Rightarrow> Inr (m, h'))
                else if a = ''send_when_present'' then Inr (send_when_present float_of m h data)
                else if take 8 a = ''send_to_''
                  then Inr (m, fold (\<lambda>p h'. if name p = drop 8 a then send_to_person h' data p else h')
                                 (persons m) h)
                else Inr (m, h)) of
        Inl e \<Rightarrow> Inl e
      | Inr (m1, h1) \<Rightarrow>
          (let h2 = (if persistent data = Some True
                     then call_notify_service h1 ''persistent_notification''
                            \<lparr>data_title = Some (get_or_empty (title data)),
                             data_message = Some (get_or_empty (message data)),
                             data_payload = empty_payload\<rparr>
                            ''notify''
                     else h1)
           in case until data of
                None \<Rightarrow> Inr (m1, h2)
              | Some ws \<Rightarrow>
                  (case tag data of
                     None \<Rightarrow> Inr (m1, h2)
                   | Some t \<Rightarrow> if t = [] then Inr (m1, h2) else Inr (add_watchers m1 h2 t ws))))"

section \<open>Example inputs\<close>

text \<open>
  A \<open>float\<close> for the readings of the examples, a platform with given states, no
  failing call and nothing recorded, and some persons and requests.
\<close>

definition float_demo :: "string \<Rightarrow> pyfloat option" where
  "float_demo s =
     (if s = ''300'' then Some (Fin 300)
      else if s = ''9999'' then Some (Fin 9999)
      else if s = ''nan'' then Some NaN
      else None)"

text \<open>An addition that is exact and never raises, which is right on small numbers.\<close>

definition add_demo :: "pyfloat \<Rightarrow> int \<Rightarrow> pyfloat option" where
  "add_demo f t = (case f of Fin r \<Rightarrow> Some (Fin (r + real_of_int t)) | _ \<Rightarrow> Some f)"

definition hass_init :: "(string \<Rightarrow> string option) \<Rightarrow> hass" where
  "hass_init st =
     \<lparr>states = st, service_raises = (\<lambda>d s. False), remove_raises = (\<lambda>r. False),
      calls = [], subscriptions = [], removed = [], tasks = []\<rparr>"

definition person_a :: person where
  "person_a =
     \<lparr>name = ''a'', home_id = ''person.a'', proximity_id = ''sensor.a'',
      notification_service = Some ''mobile_app_a''\<rparr>"

definition person_b :: person where
  "person_b =
     \<lparr>name = ''b'', home_id = ''person.b'', proximity_id = ''sensor.b'',
      notification_service = Some ''notify/mobile_app_b''\<rparr>"

definition request_door :: request where
  "request_door =
     \<lparr>action = Some ''send_to_present'', tag = None, title = Some ''Door'',
      message = Some ''Open'', persistent = None, callback = None, image_url = None,
      click_url = None, color = None, until = None\<rparr>"

definition door_data :: service_data where
  "door_data =
     \<lparr>data_title = Some ''Door'', data_message = Some ''Open'',
      data_payload = empty_payload\<rparr>"

definition states_far :: "string \<Rightarrow> string option" where
  "states_far e =
     (if e = ''person.a'' then Some ''not_home''
      else if e = ''person.b'' then Some ''not_home''
      else if e = ''sensor.a'' then Some ''9999''
      else if e = ''sensor.b'' then Some ''9999''
      else None)"

definition states_scenario :: "string \<Rightarrow> string option" where
  "states_scenario e =
     (if e = ''person.a'' then Some ''not_home''
      else if e = ''person.b'' then Some ''home''
      else if e = ''sensor.a'' then Some ''300''
      else if e = ''sensor.b'' then Some ''9999''
      else None)"


definition states_none :: "string \<Rightarrow> string option" where
  "states_none e = None"


definition states_nan :: "string \<Rightarrow> string option" where
  "states_nan e =
     (if e = ''sensor.a'' then Some ''nan''
      else if e = ''sensor.b'' then Some ''300''
      else None)"


text \<open>
  The calls \<open>_clear_notifications\<close> makes for one person: one on the person's
  channel, none for a person with no (or an empty) channel.
\<close>

definition clear_calls :: "person \<Rightarrow> (string \<times> string \<times> service_data) list" where
  "clear_calls p =
     (case notification_service p of
        None \<Rightarrow> []
      | Some svc \<Rightarrow>
          if svc = [] then []
          else [(fst (split_service svc), snd (split_service svc), clear_data)])"

definition hass_failing :: "(string \<Rightarrow> string option) \<Rightarrow> hass" where
  "hass_failing st =
     \<lparr>states = st, service_raises = (\<lambda>d s. True), remove_raises = (\<lambda>r. True),
      calls = [], subscriptions = [], removed = [], tasks = []\<rparr>"

definition request_alert :: request where
  "request_alert =
     \<lparr>action = Some ''send_to_a'', tag = Some ''porte'', title = Some ''Alerte'',
      message = None, persistent = None,
      callback = Some [\<lparr>event = Some ''ack'', callback_title = Some ''Vu''\<rparr>],
      image_url = Some ''https://example.org/i.png'', click_url = None, color = None,
      until = None\<rparr>"

definition request_watch :: request where
  "request_watch =
     \<lparr>action = None, tag = Some ''door'', title = None, message = None, persistent = None,
      callback = None, image_url = None, click_url = None, color = None,
      until = Some [\<lparr>entity_id = Some ''binary_sensor.x'', new_state = Some ''off''\<rparr>,
                    \<lparr>entity_id = Some ''binary_sensor.y'', new_state = Some ''on''\<rparr>]\<rparr>"

section \<open>Lemmas on numbers\<close>

lemma float_le_refl: "x \<noteq> NaN \<Longrightarrow> float_le x x"
  by (cases x) simp_all

lemma float_le_trans: "float_le x y \<Longrightarrow> float_le y z \<Longrightarrow> float_le x z"
  by (cases x; cases y; cases z) simp_all

lemma float_le_total: "x \<noteq> NaN \<Longrightarrow> y \<noteq> NaN \<Longrightarrow> float_le x y \<or> float_le y x"
  by (cases x; cases y) auto

lemma float_lt_le: "float_lt x y \<Longrightarrow> float_le x y"
  by (cases x; cases y) simp_all

lemma not_float_lt_le: "x \<noteq> NaN \<Longrightarrow> y \<noteq> NaN \<Longrightarrow> \<not> float_lt y x \<Longrightarrow> float_le x y"
  by (cases x; cases y) simp_all

lemma num_le_trans: "num_le a b \<Longrightarrow> num_le b c \<Longrightarrow> num_le a c"
  unfolding num_le_def by (rule float_le_trans)

lemma py_min_mem: "py_min x xs \<in> set (x # xs)"
  by (induction xs arbitrary: x) (simp, fastforce)

lemma py_min_le:
  "\<forall>y \<in> set (x # xs). num_value y \<noteq> NaN \<Longrightarrow> \<forall>y \<in> set (x # xs). num_le (py_min x xs) y"
proof (induction xs arbitrary: x)
  case Nil
  then show ?case
    by (simp add: num_le_def float_le_refl)
next
  case (Cons z zs)
  let ?x' = "if num_lt z x then z else x"
  have nn: "num_value x \<noteq> NaN" "num_value z \<noteq> NaN" "\<forall>y \<in> set zs. num_value y \<noteq> NaN"
    using Cons.prems by simp_all
  then have "\<forall>y \<in> set (?x' # zs). num_value y \<noteq> NaN"
    by simp
  from Cons.IH [OF this] have ih: "\<forall>y \<in> set (?x' # zs). num_le (py_min ?x' zs) y" .
  then have low: "num_le (py_min ?x' zs) ?x'"
    by simp
  have x'x: "num_le ?x' x"
    using nn by (simp add: num_le_def num_lt_def float_lt_le float_le_refl)
  have x'z: "num_le ?x' z"
    using nn by (simp add: num_le_def num_lt_def not_float_lt_le float_le_refl)
  have "num_le (py_min ?x' zs) x" "num_le (py_min ?x' zs) z"
    using low x'x x'z by (blast intro: num_le_trans)+
  with ih show ?case
    by simp
qed

section \<open>Lemmas on dispatch and selection\<close>

lemma call_notify_service_eq:
  "call_notify_service h service data domain
     = h\<lparr>calls := calls h @ [(domain, service, data)]\<rparr>"
  by (simp add: call_notify_service_def async_call_def)

lemma states_send_to_person [simp]: "states (send_to_person h data p) = states h"
  by (simp add: send_to_person_def call_notify_service_eq split: option.split prod.split)

lemma send_each_Nil [simp]: "send_each h data [] = h"
  by (simp add: send_each_def)

lemma send_each_Cons [simp]:
  "send_each h data (p # ps) = send_each (send_to_person h data p) data ps"
  by (simp add: send_each_def)

lemma fold_select_send:
  assumes "\<And>h' p. states h' = states h \<Longrightarrow> sel h' p = sel h p"
  shows "states h0 = states h \<Longrightarrow>
    fold (\<lambda>p h'. if sel h' p then send_to_person h' data p else h') ps h0
      = send_each h0 data (filter (sel h) ps)"
proof (induction ps arbitrary: h0)
  case Nil
  show ?case by simp
next
  case (Cons p ps)
  have same: "sel h0 p = sel h p"
    by (rule assms [OF Cons.prems])
  show ?case
  proof (cases "sel h p")
    case True
    have "states (send_to_person h0 data p) = states h"
      using Cons.prems by simp
    from Cons.IH [OF this] True same show ?thesis by simp
  next
    case False
    from Cons.IH [OF Cons.prems] False same show ?thesis by simp
  qed
qed

lemma send_to_present_fold:
  "send_to_present float_of m h data
      = fold (\<lambda>p h'. if present_rule float_of m h' p then send_to_person h' data p else h')
          (persons m) h"
  unfolding send_to_present_def present_rule_def is_home_def proximity_def Let_def ..

lemma present_rule_states:
  "states h' = states h \<Longrightarrow> present_rule float_of m h' p = present_rule float_of m h p"
  by (simp add: present_rule_def is_home_def proximity_def)

lemma send_to_present_selected:
  "send_to_present float_of m h data = send_each h data (selected_present float_of m h)"
  unfolding send_to_present_fold selected_present_def
  by (rule fold_select_send [OF present_rule_states refl])

lemma send_to_absent_fold:
  "send_to_absent float_of m h data
      = fold (\<lambda>p h'. if absent_rule float_of m h' p then send_to_person h' data p else h')
          (persons m) h"
  unfolding send_to_absent_def absent_rule_def is_home_def proximity_def Let_def ..

lemma absent_rule_states:
  "states h' = states h \<Longrightarrow> absent_rule float_of m h' p = absent_rule float_of m h p"
  by (simp add: absent_rule_def is_home_def proximity_def)

lemma send_to_absent_selected:
  "send_to_absent float_of m h data = send_each h data (selected_absent float_of m h)"
  unfolding send_to_absent_fold selected_absent_def
  by (rule fold_select_send [OF absent_rule_states refl])

lemma nearest_loop_selected:
  "fold (\<lambda>p h'.
      let prox_state = states h' (proximity_id p);
          prox = (case prox_state of Some s \<Rightarrow> safe_float float_of s | None \<Rightarrow> PyInt 9999)
      in if num_le prox bound then send_to_person h' data p else h')
     (persons m) h
   = send_each h data (selected_nearest float_of m h bound)"
proof -
  have "fold (\<lambda>p h'. if (\<lambda>h' p. num_le (proximity float_of h' p) bound) h' p
               then send_to_person h' data p else h') (persons m) h
        = send_each h data
            (filter ((\<lambda>h' p. num_le (proximity float_of h' p) bound) h) (persons m))"
    by (rule fold_select_send [OF _ refl]) (simp add: proximity_def)
  then show ?thesis
    by (simp add: selected_nearest_def proximity_def Let_def)
qed

lemma send_to_nearest_empty:
  "persons m = [] \<Longrightarrow> send_to_nearest float_of float_add m h data = Inr h"
  by (simp add: send_to_nearest_def)

lemma send_to_nearest_selected:
  assumes "min_proximity float_of m h = Some minp"
    and "num_add float_add minp (threshold m) = Inr bound"
  shows "send_to_nearest float_of float_add m h data
           = Inr (send_each h data (selected_nearest float_of m h bound))"
proof -
  from assms(1) obtain x xs where xs: "map (proximity float_of h) (persons m) = x # xs"
    and minp: "minp = py_min x xs"
    by (auto simp: min_proximity_def split: list.splits)
  have "map (\<lambda>p. case states h (proximity_id p) of
                    Some s \<Rightarrow> safe_float float_of s | None \<Rightarrow> PyInt 9999) (persons m) = x # xs"
    using xs by (simp add: proximity_def [abs_def])
  then show ?thesis
    unfolding send_to_nearest_def
    by (simp add: Let_def minp [symmetric] assms(2) nearest_loop_selected [unfolded Let_def])
qed

lemma send_to_nearest_raises:
  assumes "min_proximity float_of m h = Some minp"
    and "num_add float_add minp (threshold m) = Inl e"
  shows "send_to_nearest float_of float_add m h data = Inl e"
proof -
  from assms(1) obtain x xs where xs: "map (proximity float_of h) (persons m) = x # xs"
    and minp: "minp = py_min x xs"
    by (auto simp: min_proximity_def split: list.splits)
  have "map (\<lambda>p. case states h (proximity_id p) of
                    Some s \<Rightarrow> safe_float float_of s | None \<Rightarrow> PyInt 9999) (persons m) = x # xs"
    using xs by (simp add: proximity_def [abs_def])
  then show ?thesis
    unfolding send_to_nearest_def
    by (simp add: Let_def minp [symmetric] assms(2))
qed

lemma send_to_person_channel:
  "notification_service p = Some svc \<Longrightarrow> svc \<noteq> [] \<Longrightarrow>
   send_to_person h data p
     = h\<lparr>calls := calls h @
          [(fst (split_service svc), snd (split_service svc),
            \<lparr>data_title = Some (get_or_empty (title data)),
             data_message = Some (get_or_empty (message data)),
             data_payload = build_payload data\<rparr>)]\<rparr>"
  by (simp add: send_to_person_def call_notify_service_eq split: prod.split)

lemma build_payload_request_door [simp]: "build_payload request_door = empty_payload"
  by (simp add: build_payload_def request_door_def)

lemma send_request_door_a:
  "send_to_person h request_door person_a
     = h\<lparr>calls := calls h @ [(''notify'', ''mobile_app_a'', door_data)]\<rparr>"
  by (simp add: send_to_person_channel [where svc = "''mobile_app_a''"] person_a_def
      split_service_def door_data_def get_or_empty_def request_door_def [THEN arg_cong, of title]
      request_door_def [THEN arg_cong, of message])

lemma send_request_door_b:
  "send_to_person h request_door person_b
     = h\<lparr>calls := calls h @ [(''notify'', ''mobile_app_b'', door_data)]\<rparr>"
  by (simp add: send_to_person_channel [where svc = "''notify/mobile_app_b''"] person_b_def
      split_service_def door_data_def get_or_empty_def request_door_def [THEN arg_cong, of title]
      request_door_def [THEN arg_cong, of message])

lemma float_lt_not_le: "float_lt x y \<Longrightarrow> \<not> float_le y x"
  by (cases x; cases y) simp_all

lemma num_lt_not_le: "num_lt a b \<Longrightarrow> \<not> num_le b a"
  unfolding num_lt_def num_le_def by (rule float_lt_not_le)

section \<open>Claims on recipient selection\<close>

text \<open>
  C6. The \<open>present\<close> mode sends, in the configured order, to exactly the
  configured persons that are home or whose proximity is at most the threshold
  (\<open>selected_present\<close>); when no person is home and every proximity exceeds the
  threshold, the request leaves the platform as it was: nothing is dispatched.
\<close>

theorem C6_present_selection:
  "send_to_present float_of m h data = send_each h data (selected_present float_of m h)
   \<and> (\<forall>p. p \<in> set (selected_present float_of m h) \<longleftrightarrow>
          p \<in> set (persons m)
          \<and> (is_home h p \<or> num_le (proximity float_of h p) (PyInt (threshold m))))
   \<and> ((\<forall>p \<in> set (persons m).
          \<not> is_home h p \<and> num_lt (PyInt (threshold m)) (proximity float_of h p))
        \<longrightarrow> send_to_present float_of m h data = h)"
proof (intro conjI allI impI)
  show eq: "send_to_present float_of m h data = send_each h data (selected_present float_of m h)"
    by (rule send_to_present_selected)
  show "p \<in> set (selected_present float_of m h) \<longleftrightarrow>
          p \<in> set (persons m)
          \<and> (is_home h p \<or> num_le (proximity float_of h p) (PyInt (threshold m)))" for p
    by (simp add: selected_present_def present_rule_def)
  assume far: "\<forall>p \<in> set (persons m).
          \<not> is_home h p \<and> num_lt (PyInt (threshold m)) (proximity float_of h p)"
  have "selected_present float_of m h = []"
    unfolding selected_present_def filter_empty_conv present_rule_def
    using far by (auto dest: num_lt_not_le)
  with eq show "send_to_present float_of m h data = h" by simp
qed

text \<open>
  The scenario of the specification: nobody home, every proximity \<open>9999\<close>, threshold
  \<open>1000\<close>.
\<close>

theorem C6_present_selection_witness:
  "send_to_present float_demo (manager_init ''binary_sensor.home_occupied'' 1000 [person_a, person_b])
      (hass_init states_far) request_door
   = hass_init states_far"
proof -
  let ?m = "manager_init ''binary_sensor.home_occupied'' 1000 [person_a, person_b]"
  let ?h = "hass_init states_far"
  have a: "\<not> is_home ?h person_a
      \<and> num_lt (PyInt (threshold ?m)) (proximity float_demo ?h person_a)"
    by (simp add: is_home_def proximity_def hass_init_def states_far_def person_a_def
        safe_float_def float_demo_def manager_init_def num_lt_def)
  have b: "\<not> is_home ?h person_b
      \<and> num_lt (PyInt (threshold ?m)) (proximity float_demo ?h person_b)"
    by (simp add: is_home_def proximity_def hass_init_def states_far_def person_b_def
        safe_float_def float_demo_def manager_init_def num_lt_def)
  have ps: "persons ?m = [person_a, person_b]"
    by (simp add: manager_init_def)
  have "\<forall>p \<in> set (persons ?m).
          \<not> is_home ?h p \<and> num_lt (PyInt (threshold ?m)) (proximity float_demo ?h p)"
    unfolding ps using a b by simp
  with C6_present_selection [of float_demo ?m ?h request_door] show ?thesis
    by blast
qed

text \<open>
  C1. The scenario of the specification: threshold \<open>500\<close>, person a not home with
  proximity \<open>300\<close>, person b home with proximity \<open>9999\<close>. The \<open>present\<close> mode sends
  to both, and so does the \<open>absent\<close> mode: \<open>_send_to_absent\<close> tests
  \<open>not home or prox > self.threshold\<close>, which holds for a (not home) and for b
  (far), where the negation of the \<open>present\<close> rule holds for neither.
\<close>

theorem C1_absent_scenario:
  "calls (send_to_present float_demo
            (manager_init ''binary_sensor.home_occupied'' 500 [person_a, person_b])
            (hass_init states_scenario) request_door)
     = [(''notify'', ''mobile_app_a'', door_data), (''notify'', ''mobile_app_b'', door_data)]
   \<and> calls (send_to_absent float_demo
            (manager_init ''binary_sensor.home_occupied'' 500 [person_a, person_b])
            (hass_init states_scenario) request_door)
     = [(''notify'', ''mobile_app_a'', door_data), (''notify'', ''mobile_app_b'', door_data)]"
proof -
  let ?m = "manager_init ''binary_sensor.home_occupied'' 500 [person_a, person_b]"
  let ?h = "hass_init states_scenario"
  have ps: "persons ?m = [person_a, person_b]" and thr: "threshold ?m = 500"
    by (simp_all add: manager_init_def)
  have ha: "\<not> is_home ?h person_a" and hb: "is_home ?h person_b"
    by (simp_all add: is_home_def hass_init_def states_scenario_def person_a_def person_b_def)
  have pa: "proximity float_demo ?h person_a = PyFloat (Fin 300)"
    and pb: "proximity float_demo ?h person_b = PyFloat (Fin 9999)"
    by (simp_all add: proximity_def hass_init_def states_scenario_def person_a_def person_b_def
        safe_float_def float_demo_def)
  have "selected_present float_demo ?m ?h = [person_a, person_b]"
    by (simp add: selected_present_def present_rule_def ps thr ha hb pa pb num_le_def)
  moreover have "selected_absent float_demo ?m ?h = [person_a, person_b]"
    by (simp add: selected_absent_def absent_rule_def ps thr ha hb pa pb num_lt_def)
  moreover have "calls ?h = []"
    by (simp add: hass_init_def)
  ultimately show ?thesis
    by (simp add: send_to_present_selected send_to_absent_selected
        send_request_door_a send_request_door_b)
qed

text \<open>In the scenario of C1, person b, who is home, is sent the \<open>absent\<close> request.\<close>

theorem C1_absent_scenario_witness:
  "(''notify'', ''mobile_app_b'', door_data)
     \<in> set (calls (send_to_absent float_demo
            (manager_init ''binary_sensor.home_occupied'' 500 [person_a, person_b])
            (hass_init states_scenario) request_door))"
  using C1_absent_scenario by simp

text \<open>
  C10. With no state for the home-occupancy sensor, \<open>_send_when_present\<close> appends
  the request to the staging queue and touches nothing of the platform, exactly
  as it does for any state other than \<open>"on"\<close>.
\<close>

theorem C10_missing_occupancy_state:
  "states h (home_sensor m) = None \<Longrightarrow>
     send_when_present float_of m h data = (m\<lparr>staged := staged m @ [data]\<rparr>, h)
     \<and> (\<forall>s. s \<noteq> ''on'' \<longrightarrow>
          send_when_present float_of m (h\<lparr>states := (states h)(home_sensor m \<mapsto> s)\<rparr>) data
            = (m\<lparr>staged := staged m @ [data]\<rparr>, h\<lparr>states := (states h)(home_sensor m \<mapsto> s)\<rparr>))"
  by (simp add: send_when_present_def)

text \<open>The states of the scenario of C1 hold no state for the sensor.\<close>

theorem C10_missing_occupancy_state_witness:
  "send_when_present float_demo
     (manager_init ''binary_sensor.home_occupied'' 1000 [person_a, person_b])
     (hass_init states_scenario) request_door
   = ((manager_init ''binary_sensor.home_occupied'' 1000 [person_a, person_b])
        \<lparr>staged := [request_door]\<rparr>, hass_init states_scenario)"
proof -
  let ?m = "manager_init ''binary_sensor.home_occupied'' 1000 [person_a, person_b]"
  let ?h = "hass_init states_scenario"
  have "states ?h (home_sensor ?m) = None"
    by (simp add: hass_init_def manager_init_def states_scenario_def)
  from C10_missing_occupancy_state [OF this, of float_demo request_door] show ?thesis
    by (simp add: manager_init_def)
qed

section \<open>Claims on the nearest mode and on missing data\<close>

lemma num_add_inflationary:
  assumes "add_inflationary float_add" and "0 \<le> t" and "num_value a \<noteq> NaN"
    and "num_add float_add a t = Inr b"
  shows "num_le a b"
proof (cases a)
  case (PyInt i)
  with assms(2,4) show ?thesis
    by (auto simp: num_add_def num_le_def)
next
  case (PyFloat f)
  with assms(4) obtain s where s: "float_add f t = Some s" and b: "b = PyFloat s"
    by (auto simp: num_add_def split: option.splits)
  from assms(3) PyFloat have "f \<noteq> NaN" by simp
  with assms(1,2) s have "float_le f s"
    unfolding add_inflationary_def by blast
  with PyFloat b show ?thesis
    by (simp add: num_le_def)
qed

lemma num_add_monotone:
  assumes "add_monotone float_add" and "t1 \<le> t2"
    and "num_add float_add a t1 = Inr b1" and "num_add float_add a t2 = Inr b2"
    and "num_le x b1"
  shows "num_le x b2"
proof (cases a)
  case (PyInt i)
  with assms(3,4) have b: "b1 = PyInt (i + t1)" "b2 = PyInt (i + t2)"
    by (auto simp: num_add_def)
  from assms(2) have "float_le (Fin (real_of_int (i + t1))) (Fin (real_of_int (i + t2)))"
    by simp
  with assms(5) show ?thesis
    unfolding num_le_def b num_value.simps by (rule float_le_trans)
next
  case (PyFloat f)
  with assms(3,4) obtain s1 s2 where s: "float_add f t1 = Some s1" "float_add f t2 = Some s2"
    and b: "b1 = PyFloat s1" "b2 = PyFloat s2"
    by (auto simp: num_add_def split: option.splits)
  from assms(5) have "float_le (num_value x) s1"
    by (simp add: num_le_def b)
  with assms(1,2) s have "float_le (num_value x) s2"
    unfolding add_monotone_def by blast
  then show ?thesis
    by (simp add: num_le_def b)
qed

lemma min_proximity_nonempty:
  "persons m \<noteq> [] \<Longrightarrow> \<exists>minp. min_proximity float_of m h = Some minp"
  by (cases "persons m") (simp_all add: min_proximity_def)

lemma min_proximity_attained:
  assumes "min_proximity float_of m h = Some minp"
  shows "\<exists>p \<in> set (persons m). proximity float_of h p = minp"
proof -
  from assms obtain x xs where xs: "map (proximity float_of h) (persons m) = x # xs"
    and minp: "minp = py_min x xs"
    by (auto simp: min_proximity_def split: list.splits)
  have "minp \<in> set (map (proximity float_of h) (persons m))"
    unfolding xs minp by (rule py_min_mem)
  then show ?thesis by auto
qed

lemma min_proximity_le:
  assumes "min_proximity float_of m h = Some minp"
    and "\<forall>q \<in> set (persons m). num_value (proximity float_of h q) \<noteq> NaN"
    and "q \<in> set (persons m)"
  shows "num_le minp (proximity float_of h q)"
proof -
  from assms(1) obtain x xs where xs: "map (proximity float_of h) (persons m) = x # xs"
    and minp: "minp = py_min x xs"
    by (auto simp: min_proximity_def split: list.splits)
  have "\<forall>y \<in> set (map (proximity float_of h) (persons m)). num_value y \<noteq> NaN"
    using assms(2) by simp
  then have "\<forall>y \<in> set (x # xs). num_value y \<noteq> NaN"
    unfolding xs .
  from py_min_le [OF this] have "\<forall>y \<in> set (map (proximity float_of h) (persons m)). num_le minp y"
    unfolding xs minp .
  with assms(3) show ?thesis by simp
qed

lemma min_proximity_threshold [simp]:
  "min_proximity float_of (m\<lparr>threshold := t\<rparr>) h = min_proximity float_of m h"
  by (simp add: min_proximity_def)

lemma selected_nearest_threshold [simp]:
  "selected_nearest float_of (m\<lparr>threshold := t\<rparr>) h bound = selected_nearest float_of m h bound"
  by (simp add: selected_nearest_def)

lemma add_demo_inflationary: "add_inflationary add_demo"
  unfolding add_inflationary_def add_demo_def
  by (auto split: pyfloat.splits)

lemma add_demo_monotone: "add_monotone add_demo"
proof -
  have "float_le x (Fin (r + real_of_int t2))"
    if "t1 \<le> t2" and "float_le x (Fin (r + real_of_int t1))" for x r t1 t2
  proof -
    from that(1) have "float_le (Fin (r + real_of_int t1)) (Fin (r + real_of_int t2))"
      by simp
    with that(2) show ?thesis by (rule float_le_trans)
  qed
  then show ?thesis
    unfolding add_monotone_def add_demo_def
    by (auto split: pyfloat.splits)
qed

text \<open>
  C7, as stated, fails for a negative threshold: with threshold \<open>-1\<close> and one
  person at proximity \<open>300\<close>, the \<open>nearest\<close> mode sends to nobody. It fails as well
  when a reading is not a number: with the readings \<open>nan\<close> and \<open>300\<close> and threshold
  \<open>1000\<close>, the minimum is not a number and nobody is sent the request.
\<close>

theorem C7_nearest_counterexample:
  "persons (manager_init ''binary_sensor.home_occupied'' (- 1) [person_a]) \<noteq> []
   \<and> send_to_nearest float_demo add_demo
        (manager_init ''binary_sensor.home_occupied'' (- 1) [person_a])
        (hass_init states_scenario) request_door = Inr (hass_init states_scenario)
   \<and> persons (manager_init ''binary_sensor.home_occupied'' 1000 [person_a, person_b]) \<noteq> []
   \<and> send_to_nearest float_demo add_demo
        (manager_init ''binary_sensor.home_occupied'' 1000 [person_a, person_b])
        (hass_init states_nan) request_door = Inr (hass_init states_nan)"
proof -
  let ?m = "manager_init ''binary_sensor.home_occupied'' (- 1) [person_a]"
  let ?h = "hass_init states_scenario"
  let ?n = "manager_init ''binary_sensor.home_occupied'' 1000 [person_a, person_b]"
  let ?k = "hass_init states_nan"
  have ps: "persons ?m = [person_a]" and thr: "threshold ?m = - 1"
    and qs: "persons ?n = [person_a, person_b]" and thq: "threshold ?n = 1000"
    by (simp_all add: manager_init_def)
  have pa: "proximity float_demo ?h person_a = PyFloat (Fin 300)"
    by (simp add: proximity_def hass_init_def states_scenario_def person_a_def
        safe_float_def float_demo_def)
  have qa: "proximity float_demo ?k person_a = PyFloat NaN"
    and qb: "proximity float_demo ?k person_b = PyFloat (Fin 300)"
    by (simp_all add: proximity_def hass_init_def states_nan_def person_a_def person_b_def
        safe_float_def float_demo_def)
  have min1: "min_proximity float_demo ?m ?h = Some (PyFloat (Fin 300))"
    by (simp add: min_proximity_def ps pa)
  have add1: "num_add add_demo (PyFloat (Fin 300)) (threshold ?m) = Inr (PyFloat (Fin 299))"
    by (simp add: num_add_def add_demo_def thr)
  have sel1: "selected_nearest float_demo ?m ?h (PyFloat (Fin 299)) = []"
    by (simp add: selected_nearest_def ps pa num_le_def)
  have min2: "min_proximity float_demo ?n ?k = Some (PyFloat NaN)"
    by (simp add: min_proximity_def qs qa qb num_lt_def)
  have add2: "num_add add_demo (PyFloat NaN) (threshold ?n) = Inr (PyFloat NaN)"
    by (simp add: num_add_def add_demo_def)
  have sel2: "selected_nearest float_demo ?n ?k (PyFloat NaN) = []"
    by (simp add: selected_nearest_def qs qa qb num_le_def)
  show ?thesis
    by (simp add: send_to_nearest_selected [OF min1 add1] send_to_nearest_selected [OF min2 add2]
        sel1 sel2 ps qs)
qed

text \<open>
  C7, amended. With at least one configured person the \<open>nearest\<close> mode computes
  a minimum proximity, and when \<open>minp + self.threshold\<close> does not raise it sends
  to exactly the configured persons whose proximity is at most that sum
  (\<open>selected_nearest\<close>). When moreover no reading is a not-a-number and the
  threshold is not negative, the minimum is at most every proximity and a person
  attaining it is selected. And for thresholds \<open>t1 \<le> t2\<close> on the same presence data
  whose sums do not raise, whoever is selected for \<open>t1\<close> is selected for \<open>t2\<close>.
\<close>

theorem C7_nearest_selection:
  "persons m \<noteq> [] \<Longrightarrow>
   \<exists>minp. min_proximity float_of m h = Some minp
     \<and> (\<forall>bound. num_add float_add minp (threshold m) = Inr bound \<longrightarrow>
          send_to_nearest float_of float_add m h data
            = Inr (send_each h data (selected_nearest float_of m h bound))
          \<and> (\<forall>p. p \<in> set (selected_nearest float_of m h bound) \<longleftrightarrow>
                p \<in> set (persons m) \<and> num_le (proximity float_of h p) bound)
          \<and> ((\<forall>q \<in> set (persons m). num_value (proximity float_of h q) \<noteq> NaN) \<longrightarrow>
               0 \<le> threshold m \<longrightarrow> add_inflationary float_add \<longrightarrow>
                 (\<forall>q \<in> set (persons m). num_le minp (proximity float_of h q))
                 \<and> (\<exists>p \<in> set (selected_nearest float_of m h bound).
                       proximity float_of h p = minp)))
     \<and> (\<forall>t1 t2 b1 b2.
          t1 \<le> t2 \<longrightarrow> add_monotone float_add \<longrightarrow>
          num_add float_add minp t1 = Inr b1 \<longrightarrow> num_add float_add minp t2 = Inr b2 \<longrightarrow>
            send_to_nearest float_of float_add (m\<lparr>threshold := t1\<rparr>) h data
              = Inr (send_each h data (selected_nearest float_of m h b1))
            \<and> send_to_nearest float_of float_add (m\<lparr>threshold := t2\<rparr>) h data
              = Inr (send_each h data (selected_nearest float_of m h b2))
            \<and> set (selected_nearest float_of m h b1) \<subseteq> set (selected_nearest float_of m h b2))"
proof -
  assume ne: "persons m \<noteq> []"
  from min_proximity_nonempty [OF ne] obtain minp
    where minp: "min_proximity float_of m h = Some minp" by blast
  have A: "send_to_nearest float_of float_add m h data
            = Inr (send_each h data (selected_nearest float_of m h bound))"
    if "num_add float_add minp (threshold m) = Inr bound" for bound
    using minp that by (rule send_to_nearest_selected)
  have B: "p \<in> set (selected_nearest float_of m h bound) \<longleftrightarrow>
                p \<in> set (persons m) \<and> num_le (proximity float_of h p) bound" for p bound
    by (simp add: selected_nearest_def)
  have C: "(\<forall>q \<in> set (persons m). num_le minp (proximity float_of h q))
                 \<and> (\<exists>p \<in> set (selected_nearest float_of m h bound).
                       proximity float_of h p = minp)"
    if add: "num_add float_add minp (threshold m) = Inr bound"
      and nn: "\<forall>q \<in> set (persons m). num_value (proximity float_of h q) \<noteq> NaN"
      and thr: "0 \<le> threshold m" and infl: "add_inflationary float_add" for bound
  proof
    show "\<forall>q \<in> set (persons m). num_le minp (proximity float_of h q)"
      using min_proximity_le [OF minp nn] by blast
    from min_proximity_attained [OF minp] obtain p
      where p: "p \<in> set (persons m)" and att: "proximity float_of h p = minp" by blast
    from nn p att have "num_value minp \<noteq> NaN" by auto
    from num_add_inflationary [OF infl thr this add] have "num_le minp bound" .
    with p att have "p \<in> set (selected_nearest float_of m h bound)"
      by (simp add: selected_nearest_def)
    with att show "\<exists>p \<in> set (selected_nearest float_of m h bound).
                       proximity float_of h p = minp"
      by blast
  qed
  have D: "send_to_nearest float_of float_add (m\<lparr>threshold := t1\<rparr>) h data
              = Inr (send_each h data (selected_nearest float_of m h b1))
            \<and> send_to_nearest float_of float_add (m\<lparr>threshold := t2\<rparr>) h data
              = Inr (send_each h data (selected_nearest float_of m h b2))
            \<and> set (selected_nearest float_of m h b1) \<subseteq> set (selected_nearest float_of m h b2)"
    if le: "t1 \<le> t2" and mono: "add_monotone float_add"
      and a1: "num_add float_add minp t1 = Inr b1" and a2: "num_add float_add minp t2 = Inr b2"
    for t1 t2 b1 b2
  proof (intro conjI)
    have m1: "min_proximity float_of (m\<lparr>threshold := t1\<rparr>) h = Some minp"
      and m2: "min_proximity float_of (m\<lparr>threshold := t2\<rparr>) h = Some minp"
      using minp by simp_all
    from a1 have a1': "num_add float_add minp (threshold (m\<lparr>threshold := t1\<rparr>)) = Inr b1"
      by simp
    from a2 have a2': "num_add float_add minp (threshold (m\<lparr>threshold := t2\<rparr>)) = Inr b2"
      by simp
    show "send_to_nearest float_of float_add (m\<lparr>threshold := t1\<rparr>) h data
              = Inr (send_each h data (selected_nearest float_of m h b1))"
      using send_to_nearest_selected [OF m1 a1', of data] by simp
    show "send_to_nearest float_of float_add (m\<lparr>threshold := t2\<rparr>) h data
              = Inr (send_each h data (selected_nearest float_of m h b2))"
      using send_to_nearest_selected [OF m2 a2', of data] by simp
    show "set (selected_nearest float_of m h b1) \<subseteq> set (selected_nearest float_of m h b2)"
      using num_add_monotone [OF mono le a1 a2]
      by (auto simp: selected_nearest_def)
  qed
  from minp A B C D show ?thesis
    by blast
qed

text \<open>
  The scenario of C1 with the exact addition: the minimum is \<open>300\<close>, the sum for
  the threshold \<open>500\<close> is \<open>800\<close>, and the sum for the threshold \<open>0\<close> is \<open>300\<close>.
\<close>

theorem C7_nearest_selection_witness:
  "send_to_nearest float_demo add_demo
       (manager_init ''binary_sensor.home_occupied'' 500 [person_a, person_b])
       (hass_init states_scenario) request_door
     = Inr (send_each (hass_init states_scenario) request_door
         (selected_nearest float_demo
            (manager_init ''binary_sensor.home_occupied'' 500 [person_a, person_b])
            (hass_init states_scenario) (PyFloat (Fin 800))))
   \<and> (\<exists>p \<in> set (selected_nearest float_demo
                 (manager_init ''binary_sensor.home_occupied'' 500 [person_a, person_b])
                 (hass_init states_scenario) (PyFloat (Fin 800))).
        proximity float_demo (hass_init states_scenario) p = PyFloat (Fin 300))
   \<and> set (selected_nearest float_demo
            (manager_init ''binary_sensor.home_occupied'' 500 [person_a, person_b])
            (hass_init states_scenario) (PyFloat (Fin 300)))
       \<subseteq> set (selected_nearest float_demo
            (manager_init ''binary_sensor.home_occupied'' 500 [person_a, person_b])
            (hass_init states_scenario) (PyFloat (Fin 800)))"
proof -
  let ?m = "manager_init ''binary_sensor.home_occupied'' 500 [person_a, person_b]"
  let ?h = "hass_init states_scenario"
  have ps: "persons ?m = [person_a, person_b]" and thr: "threshold ?m = 500"
    by (simp_all add: manager_init_def)
  have ne: "persons ?m \<noteq> []"
    by (simp add: ps)
  have pa: "proximity float_demo ?h person_a = PyFloat (Fin 300)"
    and pb: "proximity float_demo ?h person_b = PyFloat (Fin 9999)"
    by (simp_all add: proximity_def hass_init_def states_scenario_def person_a_def person_b_def
        safe_float_def float_demo_def)
  have minp: "min_proximity float_demo ?m ?h = Some (PyFloat (Fin 300))"
    by (simp add: min_proximity_def ps pa pb num_lt_def)
  have nn: "\<forall>q \<in> set (persons ?m). num_value (proximity float_demo ?h q) \<noteq> NaN"
    by (simp add: ps pa pb)
  have pos: "0 \<le> threshold ?m"
    by (simp add: thr)
  have le: "(0::int) \<le> 500"
    by simp
  have add: "num_add add_demo (PyFloat (Fin 300)) (threshold ?m) = Inr (PyFloat (Fin 800))"
    "num_add add_demo (PyFloat (Fin 300)) 500 = Inr (PyFloat (Fin 800))"
    "num_add add_demo (PyFloat (Fin 300)) 0 = Inr (PyFloat (Fin 300))"
    by (simp_all add: num_add_def add_demo_def thr)
  from C7_nearest_selection [OF ne, of float_demo ?h add_demo request_door] minp
  have c7: "(\<forall>bound. num_add add_demo (PyFloat (Fin 300)) (threshold ?m) = Inr bound \<longrightarrow>
          send_to_nearest float_demo add_demo ?m ?h request_door
            = Inr (send_each ?h request_door (selected_nearest float_demo ?m ?h bound))
          \<and> (\<forall>p. p \<in> set (selected_nearest float_demo ?m ?h bound) \<longleftrightarrow>
                p \<in> set (persons ?m) \<and> num_le (proximity float_demo ?h p) bound)
          \<and> ((\<forall>q \<in> set (persons ?m). num_value (proximity float_demo ?h q) \<noteq> NaN) \<longrightarrow>
               0 \<le> threshold ?m \<longrightarrow> add_inflationary add_demo \<longrightarrow>
                 (\<forall>q \<in> set (persons ?m). num_le (PyFloat (Fin 300)) (proximity float_demo ?h q))
                 \<and> (\<exists>p \<in> set (selected_nearest float_demo ?m ?h bound).
                       proximity float_demo ?h p = PyFloat (Fin 300))))
     \<and> (\<forall>t1 t2 b1 b2.
          t1 \<le> t2 \<longrightarrow> add_monotone add_demo \<longrightarrow>
          num_add add_demo (PyFloat (Fin 300)) t1 = Inr b1 \<longrightarrow>
          num_add add_demo (PyFloat (Fin 300)) t2 = Inr b2 \<longrightarrow>
            send_to_nearest float_demo add_demo (?m\<lparr>threshold := t1\<rparr>) ?h request_door
              = Inr (send_each ?h request_door (selected_nearest float_demo ?m ?h b1))
            \<and> send_to_nearest float_demo add_demo (?m\<lparr>threshold := t2\<rparr>) ?h request_door
              = Inr (send_each ?h request_door (selected_nearest float_demo ?m ?h b2))
            \<and> set (selected_nearest float_demo ?m ?h b1)
                \<subseteq> set (selected_nearest float_demo ?m ?h b2))"
    by auto
  from c7 add(1) have 1: "send_to_nearest float_demo add_demo ?m ?h request_door
      = Inr (send_each ?h request_door (selected_nearest float_demo ?m ?h (PyFloat (Fin 800))))"
    by blast
  from c7 add(1) nn pos add_demo_inflationary
  have 2: "\<exists>p \<in> set (selected_nearest float_demo ?m ?h (PyFloat (Fin 800))).
        proximity float_demo ?h p = PyFloat (Fin 300)"
    by blast
  from c7 le add_demo_monotone add(2,3)
  have 3: "set (selected_nearest float_demo ?m ?h (PyFloat (Fin 300)))
       \<subseteq> set (selected_nearest float_demo ?m ?h (PyFloat (Fin 800)))"
    by blast
  from 1 2 3 show ?thesis by blast
qed






section \<open>Claims on the payload\<close>

lemma build_payload_eq:
  "build_payload data =
     \<lparr>actions = map_option
        (map (\<lambda>cb. \<lparr>action_name = event cb, action_title = callback_title cb\<rparr>))
        (callback data),
      payload_tag = tag data, image = image_url data, clickAction = click_url data,
      payload_color = color data\<rparr>"
  by (cases "callback data"; cases "tag data"; cases "image_url data";
      cases "click_url data"; cases "color data")
    (simp_all add: build_payload_def empty_payload_def)

text \<open>
  C9. The payload builder depends on the request alone; it maps the callback
  list to the actions list entry by entry (\<open>event\<close> becomes \<open>action\<close>), passes the
  tag, the image URL, the click URL and the colour through, and leaves out every
  key that the request does not have; title and message are added by
  \<open>_send_to_person\<close>.
\<close>

theorem C9_build_payload:
  "build_payload data =
     \<lparr>actions = map_option
        (map (\<lambda>cb. \<lparr>action_name = event cb, action_title = callback_title cb\<rparr>))
        (callback data),
      payload_tag = tag data, image = image_url data, clickAction = click_url data,
      payload_color = color data\<rparr>
   \<and> (\<forall>cbs. callback data = Some cbs \<longrightarrow>
         (\<exists>acts. actions (build_payload data) = Some acts \<and> length acts = length cbs
            \<and> (\<forall>i < length cbs.
                  action_name (acts ! i) = event (cbs ! i)
                  \<and> action_title (acts ! i) = callback_title (cbs ! i))))
   \<and> (callback data = None \<longrightarrow> actions (build_payload data) = None)
   \<and> (\<forall>svc. notification_service p = Some svc \<longrightarrow> svc \<noteq> [] \<longrightarrow>
         send_to_person h data p
           = h\<lparr>calls := calls h @
                [(fst (split_service svc), snd (split_service svc),
                  \<lparr>data_title = Some (get_or_empty (title data)),
                   data_message = Some (get_or_empty (message data)),
                   data_payload = build_payload data\<rparr>)]\<rparr>)"
proof (intro conjI allI impI)
  show "build_payload data =
     \<lparr>actions = map_option
        (map (\<lambda>cb. \<lparr>action_name = event cb, action_title = callback_title cb\<rparr>))
        (callback data),
      payload_tag = tag data, image = image_url data, clickAction = click_url data,
      payload_color = color data\<rparr>"
    by (rule build_payload_eq)
  show "\<exists>acts. actions (build_payload data) = Some acts \<and> length acts = length cbs
            \<and> (\<forall>i < length cbs.
                  action_name (acts ! i) = event (cbs ! i)
                  \<and> action_title (acts ! i) = callback_title (cbs ! i))"
    if "callback data = Some cbs" for cbs
    using that by (simp add: build_payload_eq)
  show "actions (build_payload data) = None" if "callback data = None"
    using that by (simp add: build_payload_eq)
  show "send_to_person h data p
           = h\<lparr>calls := calls h @
                [(fst (split_service svc), snd (split_service svc),
                  \<lparr>data_title = Some (get_or_empty (title data)),
                   data_message = Some (get_or_empty (message data)),
                   data_payload = build_payload data\<rparr>)]\<rparr>"
    if "notification_service p = Some svc" and "svc \<noteq> []" for svc
    using that by (rule send_to_person_channel)
qed

text \<open>A request with one callback, a tag and an image URL, and no message.\<close>

theorem C9_build_payload_witness:
  "build_payload request_alert =
     \<lparr>actions = Some [\<lparr>action_name = Some ''ack'', action_title = Some ''Vu''\<rparr>],
      payload_tag = Some ''porte'', image = Some ''https://example.org/i.png'',
      clickAction = None, payload_color = None\<rparr>
   \<and> calls (send_to_person (hass_init states_none) request_alert person_a)
       = [(''notify'', ''mobile_app_a'',
           \<lparr>data_title = Some ''Alerte'', data_message = Some '''',
            data_payload = build_payload request_alert\<rparr>)]"
proof -
  have svc: "notification_service person_a = Some ''mobile_app_a''"
    and ne: "''mobile_app_a'' \<noteq> []"
    by (simp_all add: person_a_def)
  have flds: "callback request_alert = Some [\<lparr>event = Some ''ack'', callback_title = Some ''Vu''\<rparr>]"
    "tag request_alert = Some ''porte''"
    "image_url request_alert = Some ''https://example.org/i.png''"
    "click_url request_alert = None" "color request_alert = None"
    "title request_alert = Some ''Alerte''" "message request_alert = None"
    by (simp_all add: request_alert_def)
  from C9_build_payload [of request_alert person_a "hass_init states_none"] svc ne
  have pl: "build_payload request_alert =
     \<lparr>actions = map_option
        (map (\<lambda>cb. \<lparr>action_name = event cb, action_title = callback_title cb\<rparr>))
        (callback request_alert),
      payload_tag = tag request_alert, image = image_url request_alert,
      clickAction = click_url request_alert, payload_color = color request_alert\<rparr>"
    and snd: "send_to_person (hass_init states_none) request_alert person_a
           = (hass_init states_none)\<lparr>calls := calls (hass_init states_none) @
                [(fst (split_service ''mobile_app_a''), snd (split_service ''mobile_app_a''),
                  \<lparr>data_title = Some (get_or_empty (title request_alert)),
                   data_message = Some (get_or_empty (message request_alert)),
                   data_payload = build_payload request_alert\<rparr>)]\<rparr>"
    by blast+
  have "calls (hass_init states_none) = []"
    by (simp add: hass_init_def)
  then show ?thesis
    unfolding snd by (simp add: pl flds split_service_def get_or_empty_def)
qed

section \<open>Lemmas on the manager\<close>

lemma try_remove_eq: "try_remove h r = h\<lparr>removed := removed h @ [r]\<rparr>"
  by (simp add: try_remove_def invoke_remove_def)

lemma clear_loop_eq:
  "fold (\<lambda>p h'.
            case notification_service p of
              None \<Rightarrow> h'
            | Some svc \<Rightarrow>
                if svc = [] then h'
                else (let (domain, service) = split_service svc
                      in call_notify_service h' service clear_data domain))
     ps h
   = h\<lparr>calls := calls h @ concat (map clear_calls ps)\<rparr>"
proof (induction ps arbitrary: h)
  case Nil
  show ?case by simp
next
  case (Cons p ps)
  show ?case
    by (simp add: Cons.IH clear_calls_def call_notify_service_eq
        split: option.split prod.split)
qed

lemma clear_notifications_eq:
  "clear_notifications m h t =
     (m\<lparr>watchers := AList.delete t (watchers m)\<rparr>,
      h\<lparr>calls := calls h @ concat (map clear_calls (persons m)),
        removed := removed h @ (case map_of (watchers m) t of None \<Rightarrow> [] | Some r \<Rightarrow> [r])\<rparr>)"
  by (simp add: clear_notifications_def clear_loop_eq try_remove_eq split: option.split)

lemma removed_not_live: "r \<in> set (removed h) \<Longrightarrow> (r, s) \<notin> set (live h)"
  by (simp add: live_def)

lemma drain_eq: "drain m h = (m\<lparr>staged := []\<rparr>, h\<lparr>tasks := tasks h @ staged m\<rparr>)"
proof (induction "staged m" arbitrary: m h)
  case Nil
  then have "staged m = []" by simp
  then show ?case
    by (subst drain.simps) simp
next
  case (Cons d rest)
  from Cons.hyps(2) have st: "staged m = d # rest" by simp
  have "drain m h = drain (m\<lparr>staged := rest\<rparr>) (h\<lparr>tasks := tasks h @ [d]\<rparr>)"
    by (subst drain.simps) (simp add: st)
  also have "\<dots> = (m\<lparr>staged := rest\<rparr>\<lparr>staged := []\<rparr>,
       h\<lparr>tasks := tasks h @ [d]\<rparr>\<lparr>tasks := tasks (h\<lparr>tasks := tasks h @ [d]\<rparr>)
          @ staged (m\<lparr>staged := rest\<rparr>)\<rparr>)"
    by (rule Cons.hyps(1)) simp
  also have "\<dots> = (m\<lparr>staged := []\<rparr>, h\<lparr>tasks := tasks h @ staged m\<rparr>)"
    by (simp add: st)
  finally show ?case .
qed

lemma async_stop_eq:
  "async_stop m h =
     (m\<lparr>listeners := [], watchers := []\<rparr>,
      h\<lparr>removed := removed h @ listeners m @ map snd (watchers m)\<rparr>)"
proof -
  have a: "fold (\<lambda>remove h'. try_remove h' remove) rs h0 = h0\<lparr>removed := removed h0 @ rs\<rparr>"
    for rs h0
    by (induction rs arbitrary: h0) (simp_all add: try_remove_eq)
  have b: "fold (\<lambda>(t, remove) h'. try_remove h' remove) ws h0
             = h0\<lparr>removed := removed h0 @ map snd ws\<rparr>"
    for ws :: "(string \<times> nat) list" and h0
    by (induction ws arbitrary: h0) (simp_all add: try_remove_eq split: prod.split)
  show ?thesis
    by (simp add: async_stop_def a b)
qed


section \<open>Claims on clearing\<close>

text \<open>
  C8. Clearing a tag makes one clear call on the channel of every configured
  person that has one, in order, whatever the calls do (return or raise); then
  the tag has no entry in the registry, the other tags keep theirs, and the
  release callable of the tag's watch, if it had one, has been invoked.
\<close>

theorem C8_clear_by_tag:
  "clear_notifications m h t =
     (m\<lparr>watchers := AList.delete t (watchers m)\<rparr>,
      h\<lparr>calls := calls h @ concat (map clear_calls (persons m)),
        removed := removed h @ (case map_of (watchers m) t of None \<Rightarrow> [] | Some r \<Rightarrow> [r])\<rparr>)
   \<and> map_of (watchers (fst (clear_notifications m h t))) t = None
   \<and> (\<forall>t'. t' \<noteq> t \<longrightarrow>
         map_of (watchers (fst (clear_notifications m h t))) t' = map_of (watchers m) t')
   \<and> (\<forall>r. map_of (watchers m) t = Some r \<longrightarrow>
         r \<in> set (removed (snd (clear_notifications m h t)))
         \<and> r \<notin> fst ` set (live (snd (clear_notifications m h t))))
   \<and> (\<forall>p \<in> set (persons m). \<forall>svc. notification_service p = Some svc \<longrightarrow> svc \<noteq> [] \<longrightarrow>
         (fst (split_service svc), snd (split_service svc), clear_data)
           \<in> set (calls (snd (clear_notifications m h t))))"
proof (intro conjI allI impI ballI)
  show "clear_notifications m h t =
     (m\<lparr>watchers := AList.delete t (watchers m)\<rparr>,
      h\<lparr>calls := calls h @ concat (map clear_calls (persons m)),
        removed := removed h @ (case map_of (watchers m) t of None \<Rightarrow> [] | Some r \<Rightarrow> [r])\<rparr>)"
    by (rule clear_notifications_eq)
  show "map_of (watchers (fst (clear_notifications m h t))) t = None"
    by (simp add: clear_notifications_eq delete_conv')
  show "map_of (watchers (fst (clear_notifications m h t))) t' = map_of (watchers m) t'"
    if "t' \<noteq> t" for t'
    using that by (simp add: clear_notifications_eq)
  show "(fst (split_service svc), snd (split_service svc), clear_data)
           \<in> set (calls (snd (clear_notifications m h t)))"
    if "p \<in> set (persons m)" and "notification_service p = Some svc" and "svc \<noteq> []" for p svc
  proof -
    from that(2,3) have "(fst (split_service svc), snd (split_service svc), clear_data)
        \<in> set (clear_calls p)"
      by (simp add: clear_calls_def)
    with that(1) show ?thesis
      by (auto simp: clear_notifications_eq)
  qed
next
  fix r
  assume r: "map_of (watchers m) t = Some r"
  then show rem: "r \<in> set (removed (snd (clear_notifications m h t)))"
    by (simp add: clear_notifications_eq)
  show "r \<notin> fst ` set (live (snd (clear_notifications m h t)))"
    using removed_not_live [OF rem] by auto
qed

text \<open>
  A platform on which every service call and every release callable raises: the
  two clear calls are made, and the watch of the tag is removed and released.
\<close>

theorem C8_clear_by_tag_witness:
  "watchers (fst (clear_notifications
      ((manager_init ''binary_sensor.home_occupied'' 1000 [person_a, person_b])
         \<lparr>watchers := [(''door'', 0)]\<rparr>)
      ((hass_failing states_none)
         \<lparr>subscriptions :=
            [StateTracker (Some ''binary_sensor.x'') (UntilCallback ''door'') (Some ''off'')]\<rparr>)
      ''door'')) = []
   \<and> removed (snd (clear_notifications
      ((manager_init ''binary_sensor.home_occupied'' 1000 [person_a, person_b])
         \<lparr>watchers := [(''door'', 0)]\<rparr>)
      ((hass_failing states_none)
         \<lparr>subscriptions :=
            [StateTracker (Some ''binary_sensor.x'') (UntilCallback ''door'') (Some ''off'')]\<rparr>)
      ''door'')) = [0]
   \<and> calls (snd (clear_notifications
      ((manager_init ''binary_sensor.home_occupied'' 1000 [person_a, person_b])
         \<lparr>watchers := [(''door'', 0)]\<rparr>)
      ((hass_failing states_none)
         \<lparr>subscriptions :=
            [StateTracker (Some ''binary_sensor.x'') (UntilCallback ''door'') (Some ''off'')]\<rparr>)
      ''door''))
     = [(''notify'', ''mobile_app_a'', clear_data), (''notify'', ''mobile_app_b'', clear_data)]
   \<and> 0 \<notin> fst ` set (live (snd (clear_notifications
      ((manager_init ''binary_sensor.home_occupied'' 1000 [person_a, person_b])
         \<lparr>watchers := [(''door'', 0)]\<rparr>)
      ((hass_failing states_none)
         \<lparr>subscriptions :=
            [StateTracker (Some ''binary_sensor.x'') (UntilCallback ''door'') (Some ''off'')]\<rparr>)
      ''door'')))"
proof -
  let ?m = "(manager_init ''binary_sensor.home_occupied'' 1000 [person_a, person_b])
         \<lparr>watchers := [(''door'', 0)]\<rparr>"
  let ?h = "(hass_failing states_none)
         \<lparr>subscriptions :=
            [StateTracker (Some ''binary_sensor.x'') (UntilCallback ''door'') (Some ''off'')]\<rparr>"
  have w: "watchers ?m = [(''door'', 0)]" and ps: "persons ?m = [person_a, person_b]"
    by (simp_all add: manager_init_def)
  have h: "calls ?h = []" "removed ?h = []"
    by (simp_all add: hass_failing_def)
  have cc: "clear_calls person_a = [(''notify'', ''mobile_app_a'', clear_data)]"
    "clear_calls person_b = [(''notify'', ''mobile_app_b'', clear_data)]"
    by (simp_all add: clear_calls_def person_a_def person_b_def split_service_def)
  have reg: "map_of (watchers ?m) ''door'' = Some 0"
    by (simp add: w)
  note c8 = C8_clear_by_tag [of ?m ?h "''door''"]
  from c8 have eq: "clear_notifications ?m ?h ''door'' =
     (?m\<lparr>watchers := AList.delete ''door'' (watchers ?m)\<rparr>,
      ?h\<lparr>calls := calls ?h @ concat (map clear_calls (persons ?m)),
        removed := removed ?h @ (case map_of (watchers ?m) ''door'' of None \<Rightarrow> [] | Some r \<Rightarrow> [r])\<rparr>)"
    by (rule conjunct1)
  from c8 reg have rel: "0 \<notin> fst ` set (live (snd (clear_notifications ?m ?h ''door'')))"
    by blast
  have "watchers (fst (clear_notifications ?m ?h ''door'')) = []"
    and "removed (snd (clear_notifications ?m ?h ''door'')) = [0]"
    and "calls (snd (clear_notifications ?m ?h ''door''))
      = [(''notify'', ''mobile_app_a'', clear_data), (''notify'', ''mobile_app_b'', clear_data)]"
    unfolding eq by (simp_all add: w ps h cc AList.delete_eq)
  with rel show ?thesis by blast
qed

section \<open>Claims on the staging queue\<close>

lemma home_state_changed_str_on:
  "home_state_changed m h entity old (PyStr ''on'')
     = (m\<lparr>staged := []\<rparr>, h\<lparr>tasks := tasks h @ staged m\<rparr>)"
  by (cases "staged m = []") (simp_all add: home_state_changed_def drain_eq)

lemma sensor_changes_eq:
  "sensor_changes m h s = (m, h\<lparr>states := (states h)(home_sensor m \<mapsto> s)\<rparr>)"
  by (simp add: sensor_changes_def home_state_changed_def state_object_def)

text \<open>
  C4. A request is staged while the sensor is \<open>"off"\<close>; then the sensor changes to
  \<open>"on"\<close>. The tracker calls \<open>_home_state_changed\<close> with the new state object, the
  test \<open>new == "on"\<close> compares that object with a string and fails, and the loop is
  not entered: the request is still in the queue, no task has been created and
  nothing has been dispatched, although both persons pass the \<open>present\<close> rule (a
  request sent with \<open>send_to_present\<close> in that state reaches both).
\<close>

theorem C4_occupancy_on_keeps_queue:
  "send_when_present float_demo
       (manager_init ''binary_sensor.home_occupied'' 500 [person_a, person_b])
       ((hass_init states_scenario)
          \<lparr>states := states_scenario(''binary_sensor.home_occupied'' \<mapsto> ''off'')\<rparr>)
       request_door
     = ((manager_init ''binary_sensor.home_occupied'' 500 [person_a, person_b])
          \<lparr>staged := [request_door]\<rparr>,
        (hass_init states_scenario)
          \<lparr>states := states_scenario(''binary_sensor.home_occupied'' \<mapsto> ''off'')\<rparr>)
   \<and> sensor_changes
       ((manager_init ''binary_sensor.home_occupied'' 500 [person_a, person_b])
          \<lparr>staged := [request_door]\<rparr>)
       ((hass_init states_scenario)
          \<lparr>states := states_scenario(''binary_sensor.home_occupied'' \<mapsto> ''off'')\<rparr>)
       ''on''
     = ((manager_init ''binary_sensor.home_occupied'' 500 [person_a, person_b])
          \<lparr>staged := [request_door]\<rparr>,
        (hass_init states_scenario)
          \<lparr>states := states_scenario(''binary_sensor.home_occupied'' \<mapsto> ''on'')\<rparr>)
   \<and> tasks ((hass_init states_scenario)
          \<lparr>states := states_scenario(''binary_sensor.home_occupied'' \<mapsto> ''on'')\<rparr>) = []
   \<and> calls ((hass_init states_scenario)
          \<lparr>states := states_scenario(''binary_sensor.home_occupied'' \<mapsto> ''on'')\<rparr>) = []
   \<and> calls (send_to_present float_demo
       ((manager_init ''binary_sensor.home_occupied'' 500 [person_a, person_b])
          \<lparr>staged := [request_door]\<rparr>)
       ((hass_init states_scenario)
          \<lparr>states := states_scenario(''binary_sensor.home_occupied'' \<mapsto> ''on'')\<rparr>)
       request_door)
     = [(''notify'', ''mobile_app_a'', door_data), (''notify'', ''mobile_app_b'', door_data)]"
proof -
  let ?m = "manager_init ''binary_sensor.home_occupied'' 500 [person_a, person_b]"
  let ?hf = "(hass_init states_scenario)
          \<lparr>states := states_scenario(''binary_sensor.home_occupied'' \<mapsto> ''off'')\<rparr>"
  let ?hn = "(hass_init states_scenario)
          \<lparr>states := states_scenario(''binary_sensor.home_occupied'' \<mapsto> ''on'')\<rparr>"
  let ?m1 = "?m\<lparr>staged := [request_door]\<rparr>"
  have ps: "persons ?m1 = [person_a, person_b]" and thr: "threshold ?m1 = 500"
    and hs: "home_sensor ?m = ''binary_sensor.home_occupied''" and st: "staged ?m = []"
    by (simp_all add: manager_init_def)
  have 1: "send_when_present float_demo ?m ?hf request_door = (?m1, ?hf)"
    by (simp add: send_when_present_def hs st)
  have 2: "sensor_changes ?m1 ?hf ''on'' = (?m1, ?hn)"
    by (simp add: sensor_changes_eq hs hass_init_def)
  have 3: "tasks ?hn = []" "calls ?hn = []"
    by (simp_all add: hass_init_def)
  have ha: "\<not> is_home ?hn person_a" and hb: "is_home ?hn person_b"
    by (simp_all add: is_home_def states_scenario_def person_a_def person_b_def)
  have pa: "proximity float_demo ?hn person_a = PyFloat (Fin 300)"
    by (simp add: proximity_def states_scenario_def person_a_def safe_float_def float_demo_def)
  have sel: "selected_present float_demo ?m1 ?hn = [person_a, person_b]"
    by (simp add: selected_present_def present_rule_def ps thr ha hb pa num_le_def)
  have 4: "calls (send_to_present float_demo ?m1 ?hn request_door)
     = [(''notify'', ''mobile_app_a'', door_data), (''notify'', ''mobile_app_b'', door_data)]"
    by (simp add: send_to_present_selected sel 3 send_request_door_a send_request_door_b)
  from 1 2 3 4 show ?thesis by blast
qed

section \<open>Claims on subscriptions\<close>

lemma add_watchers_request_watch:
  "handle_notifier_event float_of float_add m h request_watch
     = Inr (m\<lparr>watchers := AList.update ''door'' (Suc (length (subscriptions h)))
            (AList.update ''door'' (length (subscriptions h)) (watchers m))\<rparr>,
        h\<lparr>subscriptions := subscriptions h @
            [StateTracker (Some ''binary_sensor.x'') (UntilCallback ''door'') (Some ''off''),
             StateTracker (Some ''binary_sensor.y'') (UntilCallback ''door'') (Some ''on'')]\<rparr>)"
  by (simp add: handle_notifier_event_def add_watchers_def async_track_state_change_def
      request_watch_def py_str_def)

text \<open>
  C2. A request with the tag \<open>door\<close> and two \<open>until\<close> conditions: both subscriptions
  are taken, the registry keeps the release callable of the second only, and
  both are live. Clearing the tag, or stopping the manager, releases the second;
  the first stays live, and nothing holds its release callable any more.
\<close>

theorem C2_watch_overwrite:
  "handle_notifier_event float_demo add_demo
       (manager_init ''binary_sensor.home_occupied'' 1000 [person_a])
       (hass_init states_none) request_watch
     = Inr ((manager_init ''binary_sensor.home_occupied'' 1000 [person_a])
              \<lparr>watchers := [(''door'', 1)]\<rparr>,
            (hass_init states_none)
              \<lparr>subscriptions :=
                 [StateTracker (Some ''binary_sensor.x'') (UntilCallback ''door'') (Some ''off''),
                  StateTracker (Some ''binary_sensor.y'') (UntilCallback ''door'') (Some ''on'')]\<rparr>)
   \<and> live ((hass_init states_none)
              \<lparr>subscriptions :=
                 [StateTracker (Some ''binary_sensor.x'') (UntilCallback ''door'') (Some ''off''),
                  StateTracker (Some ''binary_sensor.y'') (UntilCallback ''door'') (Some ''on'')]\<rparr>)
     = [(0, StateTracker (Some ''binary_sensor.x'') (UntilCallback ''door'') (Some ''off'')),
        (1, StateTracker (Some ''binary_sensor.y'') (UntilCallback ''door'') (Some ''on''))]
   \<and> watchers (fst (clear_notifications
       ((manager_init ''binary_sensor.home_occupied'' 1000 [person_a])
          \<lparr>watchers := [(''door'', 1)]\<rparr>)
       ((hass_init states_none)
          \<lparr>subscriptions :=
             [StateTracker (Some ''binary_sensor.x'') (UntilCallback ''door'') (Some ''off''),
              StateTracker (Some ''binary_sensor.y'') (UntilCallback ''door'') (Some ''on'')]\<rparr>)
       ''door'')) = []
   \<and> live (snd (clear_notifications
       ((manager_init ''binary_sensor.home_occupied'' 1000 [person_a])
          \<lparr>watchers := [(''door'', 1)]\<rparr>)
       ((hass_init states_none)
          \<lparr>subscriptions :=
             [StateTracker (Some ''binary_sensor.x'') (UntilCallback ''door'') (Some ''off''),
              StateTracker (Some ''binary_sensor.y'') (UntilCallback ''door'') (Some ''on'')]\<rparr>)
       ''door''))
     = [(0, StateTracker (Some ''binary_sensor.x'') (UntilCallback ''door'') (Some ''off''))]
   \<and> live (snd (async_stop
       ((manager_init ''binary_sensor.home_occupied'' 1000 [person_a])
          \<lparr>watchers := [(''door'', 1)]\<rparr>)
       ((hass_init states_none)
          \<lparr>subscriptions :=
             [StateTracker (Some ''binary_sensor.x'') (UntilCallback ''door'') (Some ''off''),
              StateTracker (Some ''binary_sensor.y'') (UntilCallback ''door'') (Some ''on'')]\<rparr>)))
     = [(0, StateTracker (Some ''binary_sensor.x'') (UntilCallback ''door'') (Some ''off''))]"
proof -
  let ?m = "manager_init ''binary_sensor.home_occupied'' 1000 [person_a]"
  let ?h = "hass_init states_none"
  have w: "watchers ?m = []" "listeners ?m = []"
    by (simp_all add: manager_init_def)
  have h: "subscriptions ?h = []" "removed ?h = []"
    by (simp_all add: hass_init_def)
  show ?thesis
    by (simp add: add_watchers_request_watch clear_notifications_eq async_stop_eq w h
        live_def AList.delete_eq)
qed

text \<open>
  C3. \<open>async_start\<close> takes four subscriptions and keeps the release callable of the
  state tracker only; after \<open>async_stop\<close> the three event-bus listeners are still
  live.
\<close>

theorem C3_stop_leaves_bus_listeners:
  "listeners (fst (async_start
       (manager_init ''binary_sensor.home_occupied'' 1000 [person_a])
       (hass_init states_none))) = [3]
   \<and> live (snd (async_start
       (manager_init ''binary_sensor.home_occupied'' 1000 [person_a])
       (hass_init states_none)))
     = [(0, BusListener ''NOTIFIER'' HandleNotifierEvent),
        (1, BusListener ''NOTIFIER_DISCARD'' HandleDiscardEvent),
        (2, BusListener ''mobile_app_notification_action'' HandleMobileAction),
        (3, StateTracker (Some ''binary_sensor.home_occupied'') HomeStateChanged None)]
   \<and> live (snd (async_stop
       (fst (async_start
          (manager_init ''binary_sensor.home_occupied'' 1000 [person_a])
          (hass_init states_none)))
       (snd (async_start
          (manager_init ''binary_sensor.home_occupied'' 1000 [person_a])
          (hass_init states_none)))))
     = [(0, BusListener ''NOTIFIER'' HandleNotifierEvent),
        (1, BusListener ''NOTIFIER_DISCARD'' HandleDiscardEvent),
        (2, BusListener ''mobile_app_notification_action'' HandleMobileAction)]"
proof -
  let ?m = "manager_init ''binary_sensor.home_occupied'' 1000 [person_a]"
  let ?h = "hass_init states_none"
  have start: "async_start ?m ?h =
     (?m\<lparr>listeners := [3]\<rparr>,
      ?h\<lparr>subscriptions :=
          [BusListener ''NOTIFIER'' HandleNotifierEvent,
           BusListener ''NOTIFIER_DISCARD'' HandleDiscardEvent,
           BusListener ''mobile_app_notification_action'' HandleMobileAction,
           StateTracker (Some ''binary_sensor.home_occupied'') HomeStateChanged None]\<rparr>)"
    by (simp add: async_start_def async_listen_def async_track_state_change_def
        manager_init_def hass_init_def)
  have h: "removed ?h = []"
    by (simp add: hass_init_def)
  have w: "watchers ?m = []"
    by (simp add: manager_init_def)
  show ?thesis
    unfolding start by (simp add: async_stop_eq live_def h w)
qed

text \<open>
  Called with the string \<open>"on"\<close>, \<open>_home_state_changed\<close> empties the queue: the
  staged requests become tasks \<open>_send_to_present(data)\<close> in the order of the queue,
  each once, and nothing is dispatched by the callback itself.
\<close>

theorem home_state_changed_drains:
  "home_state_changed m h entity old (PyStr ''on'')
     = (m\<lparr>staged := []\<rparr>, h\<lparr>tasks := tasks h @ staged m\<rparr>)"
  by (rule home_state_changed_str_on)

text \<open>
  \<open>async_stop\<close> returns on every platform: it invokes every release callable in
  \<open>_listeners\<close> and then every one in the registry, in order, whether they raise
  or not, and empties both.
\<close>

theorem async_stop_releases:
  "async_stop m h =
     (m\<lparr>listeners := [], watchers := []\<rparr>,
      h\<lparr>removed := removed h @ listeners m @ map snd (watchers m)\<rparr>)"
  by (rule async_stop_eq)

end
